theory Spec2Isabelle
  imports Complex_Main
begin

section \<open>Python values, rows and failures\<close>

text \<open>
  The development embeds \<^verbatim>\<open>pytext/data/tensorizers.py\<close>. Every \<^verbatim>\<open>raise\<close>, failed
  \<^verbatim>\<open>assert\<close> and failing library call of the source is a value \<open>Inl e\<close> of the result
  type \<open>error + 'a\<close>. Python strings are modelled by \<open>string\<close>. The arithmetic of Python
  floats is not computed here: where the source computes with floats, their type and
  operations are parameters of the model, and where a float is only carried (in a parsed
  list) it is written as the rational a finite double denotes.
\<close>

text \<open>The values \<^verbatim>\<open>json.loads\<close> can return.\<close>

datatype json =
    JNull
  | JBool bool
  | JInt int
  | JFloat rat
  | JString string
  | JArray "json list"
  | JObject "(string \<times> json) list"

datatype error =
    KeyError string
      \<comment> \<open>\<^verbatim>\<open>row[column]\<close> on a row without that column\<close>
  | TypeError
      \<comment> \<open>a value of the wrong Python type reached an operation\<close>
  | AttributeError
      \<comment> \<open>an attribute that \<^verbatim>\<open>initialize\<close> has not set yet, or a method of \<^verbatim>\<open>None\<close>\<close>
  | UnpackError
      \<comment> \<open>\<^verbatim>\<open>ValueError: not enough values to unpack (expected 3, got 0)\<close>\<close>
  | UnknownSymbol string
      \<comment> \<open>vocabulary lookup of a symbol that is absent, with no UNK slot\<close>
  | FloatValueError
      \<comment> \<open>\<^verbatim>\<open>float(s)\<close> on a string that is not a number\<close>
  | IndexError
  | ZeroDivisionError
  | OverflowError
      \<comment> \<open>\<^verbatim>\<open>float(n)\<close> on an int beyond the range of a double\<close>
  | AssertionError
      \<comment> \<open>\<^verbatim>\<open>assert 0 <= label <= 1\<close>\<close>
  | DimensionAssertion "int option" nat "json list"
      \<comment> \<open>\<^verbatim>\<open>assert len(res) == self.dim\<close>; the message carries dim, len(res) and res\<close>
  | UnableToParse string string
      \<comment> \<open>\<^verbatim>\<open>Exception("Unable to parse dense feature:..., re output:...")\<close>\<close>
  | NotAFloatList json
      \<comment> \<open>\<^verbatim>\<open>ValueError(f"{res} is not a valid float list")\<close>\<close>
  | StopIteration

text \<open>
  \<^verbatim>\<open>Token\<close> (of \<^verbatim>\<open>pytext.data.tokenizers\<close>) is a named tuple \<^verbatim>\<open>(value, start, end)\<close>;
  \<^verbatim>\<open>Slot\<close> (of \<^verbatim>\<open>pytext.utils.data\<close>) carries \<^verbatim>\<open>label\<close>, \<^verbatim>\<open>start\<close>, \<^verbatim>\<open>end\<close>.
\<close>

datatype token = Token (tok_value: string) (tok_start: int) (tok_end: int)

datatype slot = Slot (slot_label: string) (slot_start: int) (slot_end: int)

text \<open>
  A row maps column names to raw values. The column schema of a tensorizer documents the
  type of each column and does not enforce it; here a column read at the wrong type is
  reported as \<open>TypeError\<close> at the read.
\<close>

datatype colval = Text string | Slots "slot list"

type_synonym row = "string \<rightharpoonup> colval"

definition row_text :: "row \<Rightarrow> string \<Rightarrow> error + string" where
  "row_text row column =
     (case row column of
        None \<Rightarrow> Inl (KeyError column)
      | Some (Text s) \<Rightarrow> Inr s
      | Some (Slots _) \<Rightarrow> Inl TypeError)"

definition row_slots :: "row \<Rightarrow> string \<Rightarrow> error + slot list" where
  "row_slots row column =
     (case row column of
        None \<Rightarrow> Inl (KeyError column)
      | Some (Slots xs) \<Rightarrow> Inr xs
      | Some (Text _) \<Rightarrow> Inl TypeError)"

text \<open>The slice \<^verbatim>\<open>xs[:n]\<close>: a negative \<open>n\<close> counts from the end.\<close>

definition py_prefix :: "int \<Rightarrow> 'a list \<Rightarrow> 'a list" where
  "py_prefix n xs =
     (if 0 \<le> n then take (nat n) xs else take (length xs - nat (- n)) xs)"

section \<open>Vocabulary\<close>

text \<open>
  Modelled from the spec: the frozen \<^verbatim>\<open>Vocab\<close> of \<^verbatim>\<open>pytext/data/utils.py\<close>, which is not
  part of the source at hand. The spec gives it as a symbol-to-index map with a named
  accessor for the reserved UNK index, and \<^verbatim>\<open>lookup_all\<close> as the lookup of every symbol
  of a sequence, where an unknown symbol resolves to the UNK index if the vocabulary
  reserves one and is otherwise a failure naming the symbol.
\<close>

record vocab =
  idx :: "string \<rightharpoonup> nat"
  unk_index :: "nat option"

definition lookup :: "vocab \<Rightarrow> string \<Rightarrow> error + nat" where
  "lookup v s =
     (case idx v s of
        Some i \<Rightarrow> Inr i
      | None \<Rightarrow> (case unk_index v of Some u \<Rightarrow> Inr u | None \<Rightarrow> Inl (UnknownSymbol s)))"

fun lookup_all :: "vocab \<Rightarrow> string list \<Rightarrow> error + nat list" where
  "lookup_all v [] = Inr []"
| "lookup_all v (s # ss) =
     (case lookup v s of
        Inl e \<Rightarrow> Inl e
      | Inr i \<Rightarrow> (case lookup_all v ss of Inl e \<Rightarrow> Inl e | Inr is \<Rightarrow> Inr (i # is)))"

text \<open>
  Modelled from the spec: \<^verbatim>\<open>lookup_all\<close> applied to one \<^verbatim>\<open>str\<close> instead of a sequence
  (\<^verbatim>\<open>Vocab\<close> is not part of the source at hand). The vocabulary contract of the spec
  speaks of symbols, and a \<^verbatim>\<open>str\<close> is one symbol.
\<close>

definition lookup_all_str :: "vocab \<Rightarrow> string \<Rightarrow> error + nat" where
  "lookup_all_str v s = lookup v s"

text \<open>
  Modelled from the spec: the \<^verbatim>\<open>VocabBuilder\<close> of \<^verbatim>\<open>pytext/data/utils.py\<close>, which
  accumulates unique symbols in encounter order and carries the switches of the reserved
  slots that the tensorizers set.
\<close>

record vocab_builder =
  use_pad :: bool
  use_unk :: bool
  symbols :: "string list"

definition add :: "vocab_builder \<Rightarrow> string \<Rightarrow> vocab_builder" where
  "add b s = (if s \<in> set (symbols b) then b else b\<lparr>symbols := symbols b @ [s]\<rparr>)"

definition add_all :: "vocab_builder \<Rightarrow> string list \<Rightarrow> vocab_builder" where
  "add_all b ss = foldl add b ss"

text \<open>
  What the module imports from \<^verbatim>\<open>.utils\<close> and the source at hand does not define is a
  parameter of the model: the texts of the reserved tokens \<^verbatim>\<open>BOS\<close> and \<^verbatim>\<open>EOS\<close>, the
  builder that \<^verbatim>\<open>VocabBuilder()\<close> returns, and \<^verbatim>\<open>make_vocab\<close>.
\<close>

record utils =
  BOS :: string
  EOS :: string
  VocabBuilder :: vocab_builder
  make_vocab :: "vocab_builder \<Rightarrow> vocab"

section \<open>TokenTensorizer\<close>

record TokenTensorizer =
  text_column :: string
  tokenizer :: "string \<Rightarrow> token list"
  vocab :: "vocab option"
  add_bos_token :: bool
  add_eos_token :: bool
  use_eos_token_for_bos :: bool
  max_seq_len :: int
  vocab_builder :: "vocab_builder option"

text \<open>
  \<^verbatim>\<open>__init__\<close>: \<^verbatim>\<open>self.max_seq_len = max_seq_len or 2 ** 30\<close>, so that \<^verbatim>\<open>None\<close> and
  \<open>0\<close> both become the large number.
\<close>

definition TokenTensorizer_init ::
  "string \<Rightarrow> (string \<Rightarrow> token list) \<Rightarrow> bool \<Rightarrow> bool \<Rightarrow> bool \<Rightarrow> int option \<Rightarrow> vocab option
     \<Rightarrow> TokenTensorizer" where
  "TokenTensorizer_init text_column' tokenizer' add_bos_token' add_eos_token'
       use_eos_token_for_bos' max_seq_len' vocab' =
     \<lparr>text_column = text_column',
      tokenizer = tokenizer',
      vocab = vocab',
      add_bos_token = add_bos_token',
      add_eos_token = add_eos_token',
      use_eos_token_for_bos = use_eos_token_for_bos',
      max_seq_len = (case max_seq_len' of
                       None \<Rightarrow> 2 ^ 30
                     | Some n \<Rightarrow> if n = 0 then 2 ^ 30 else n),
      vocab_builder = None\<rparr>"

text \<open>
  \<^verbatim>\<open>tokenized_texts, start_idx, end_idx = zip(*(...))\<close>: on an empty token list
  \<^verbatim>\<open>zip()\<close> yields nothing and the unpacking into three names raises.
\<close>

definition zip_star :: "token list \<Rightarrow> error + (string list \<times> int list \<times> int list)" where
  "zip_star tokenized =
     (if tokenized = [] then Inl UnpackError
      else Inr (map tok_value tokenized, map tok_start tokenized, map tok_end tokenized))"

definition lookup_tokens ::
  "utils \<Rightarrow> 'a TokenTensorizer_scheme \<Rightarrow> string
     \<Rightarrow> error + (nat list \<times> int list \<times> int list)" where
  "lookup_tokens u self text =
     (let tokenized = py_prefix (max_seq_len self) (TokenTensorizer.tokenizer self text);
          tokenized = (if add_bos_token self
                       then [Token (if use_eos_token_for_bos self then EOS u else BOS u)
                                   (- 1) (- 1)] @ tokenized
                       else tokenized);
          tokenized = (if add_eos_token self
                       then tokenized @ [Token (EOS u) (- 1) (- 1)]
                       else tokenized)
      in case zip_star tokenized of
           Inl e \<Rightarrow> Inl e
         | Inr (tokenized_texts, start_idx, end_idx) \<Rightarrow>
             (case TokenTensorizer.vocab self of
                None \<Rightarrow> Inl AttributeError
              | Some v \<Rightarrow>
                  (case lookup_all v tokenized_texts of
                     Inl e \<Rightarrow> Inl e
                   | Inr tokens \<Rightarrow> Inr (tokens, start_idx, end_idx))))"

definition TokenTensorizer_numberize ::
  "utils \<Rightarrow> 'a TokenTensorizer_scheme \<Rightarrow> row \<Rightarrow> error + (nat list \<times> nat)" where
  "TokenTensorizer_numberize u self row =
     (case row_text row (TokenTensorizer.text_column self) of
        Inl e \<Rightarrow> Inl e
      | Inr text \<Rightarrow>
          (case lookup_tokens u self text of
             Inl e \<Rightarrow> Inl e
           | Inr (tokens, _, _) \<Rightarrow> Inr (tokens, length tokens)))"

text \<open>
  The token values that \<^verbatim>\<open>_lookup_tokens\<close> hands to the vocabulary when the limit is
  not negative: the boundary tokens around the truncated token sequence. The proofs about
  \<^verbatim>\<open>numberize\<close> go through this list.
\<close>

definition injected :: "utils \<Rightarrow> 'a TokenTensorizer_scheme \<Rightarrow> string \<Rightarrow> string list" where
  "injected u self raw_text =
     (if add_bos_token self then [if use_eos_token_for_bos self then EOS u else BOS u] else [])
     @ map tok_value (take (nat (max_seq_len self)) (TokenTensorizer.tokenizer self raw_text))
     @ (if add_eos_token self then [EOS u] else [])"

section \<open>CharacterTokenTensorizer\<close>

text \<open>A subclass of \<^verbatim>\<open>TokenTensorizer\<close>: the record extends it by one field.\<close>

record CharacterTokenTensorizer = TokenTensorizer +
  max_char_length :: int

text \<open>
  \<^verbatim>\<open>__init__(self, max_char_length, **kwargs)\<close> stores the limit and passes the other
  arguments on to the constructor of \<^verbatim>\<open>TokenTensorizer\<close>.
\<close>

definition CharacterTokenTensorizer_init ::
  "int \<Rightarrow> string \<Rightarrow> (string \<Rightarrow> token list) \<Rightarrow> bool \<Rightarrow> bool \<Rightarrow> bool \<Rightarrow> int option
     \<Rightarrow> vocab option \<Rightarrow> CharacterTokenTensorizer" where
  "CharacterTokenTensorizer_init max_char_length' text_column' tokenizer' add_bos_token'
       add_eos_token' use_eos_token_for_bos' max_seq_len' vocab' =
     TokenTensorizer.extend
       (TokenTensorizer_init text_column' tokenizer' add_bos_token' add_eos_token'
          use_eos_token_for_bos' max_seq_len' vocab')
       (CharacterTokenTensorizer.fields max_char_length')"

definition numberize_token :: "token \<Rightarrow> nat list" where
  "numberize_token token = map of_char (tok_value token)"

definition CharacterTokenTensorizer_numberize ::
  "CharacterTokenTensorizer \<Rightarrow> row \<Rightarrow> error + (nat list list \<times> nat list)" where
  "CharacterTokenTensorizer_numberize self row =
     (case row_text row (TokenTensorizer.text_column self) of
        Inl e \<Rightarrow> Inl e
      | Inr text \<Rightarrow>
          (let tokens = py_prefix (max_seq_len self) (TokenTensorizer.tokenizer self text);
               characters = map (\<lambda>token. py_prefix (max_char_length self)
                                           (numberize_token token)) tokens;
               lengths = map length characters
           in Inr (characters, lengths)))"

section \<open>LabelTensorizer\<close>

text \<open>
  The attribute \<^verbatim>\<open>labels\<close> does not exist before \<^verbatim>\<open>initialize\<close> has finished: \<open>None\<close>
  stands for the missing attribute.
\<close>

record LabelTensorizer =
  label_column :: string
  allow_unknown :: bool
  labels :: "vocab option"

definition LabelTensorizer_init :: "string \<Rightarrow> bool \<Rightarrow> LabelTensorizer" where
  "LabelTensorizer_init label_column' allow_unknown' =
     \<lparr>LabelTensorizer.label_column = label_column',
      LabelTensorizer.allow_unknown = allow_unknown',
      LabelTensorizer.labels = None\<rparr>"

text \<open>
  \<^verbatim>\<open>self.labels.lookup_all(row[self.label_column])\<close>: the attribute is read before the
  argument is evaluated, and the argument is the column's string as it is.
\<close>

definition LabelTensorizer_numberize :: "LabelTensorizer \<Rightarrow> row \<Rightarrow> error + nat" where
  "LabelTensorizer_numberize self row =
     (case LabelTensorizer.labels self of
        None \<Rightarrow> Inl AttributeError
      | Some v \<Rightarrow>
          (case row_text row (LabelTensorizer.label_column self) of
             Inl e \<Rightarrow> Inl e
           | Inr s \<Rightarrow> lookup_all_str v s))"

text \<open>\<^verbatim>\<open>str.split(",")\<close>, used by \<^verbatim>\<open>LabelTensorizer.initialize\<close>.\<close>

fun split :: "char \<Rightarrow> string \<Rightarrow> string list" where
  "split d [] = [[]]"
| "split d (c # cs) =
     (if c = d then [] # split d cs
      else (case split d cs of w # ws \<Rightarrow> (c # w) # ws | [] \<Rightarrow> [[c]]))"

section \<open>NumericLabelTensorizer\<close>

text \<open>
  \<^verbatim>\<open>numberize\<close> computes with Python floats, that is with IEEE doubles: results are
  rounded, may be infinite or not a number, and zero has a sign. The type \<open>'f\<close> of floats
  and the operations the source applies to them are parameters: subtraction, true division
  (which raises \<^verbatim>\<open>ZeroDivisionError\<close> on a zero divisor, \<open>None\<close> here), the comparison of
  two floats, the comparisons of a float with an \<^verbatim>\<open>int\<close> literal, and the float of an
  \<^verbatim>\<open>int\<close>. The entries of \<^verbatim>\<open>rescale_range\<close> are floats, as its annotation
  \<^verbatim>\<open>Optional[List[float]]\<close> says.
\<close>

record 'f float_ops =
  sub :: "'f \<Rightarrow> 'f \<Rightarrow> 'f"
  truediv :: "'f \<Rightarrow> 'f \<Rightarrow> 'f option"
  less :: "'f \<Rightarrow> 'f \<Rightarrow> bool"
  int_le :: "int \<Rightarrow> 'f \<Rightarrow> bool"
  le_int :: "'f \<Rightarrow> int \<Rightarrow> bool"
  from_int :: "int \<Rightarrow> 'f"

record 'f NumericLabelTensorizer =
  label_column :: string
  rescale_range :: "'f list option"

definition NumericLabelTensorizer_init ::
  "'f float_ops \<Rightarrow> string \<Rightarrow> 'f list option \<Rightarrow> error + 'f NumericLabelTensorizer" where
  "NumericLabelTensorizer_init ops label_column' rescale_range' =
     (case rescale_range' of
        None \<Rightarrow> Inr \<lparr>label_column = label_column', rescale_range = None\<rparr>
      | Some r \<Rightarrow>
          if length r \<noteq> 2 then Inl AssertionError
          else if \<not> less ops (r ! 0) (r ! 1) then Inl AssertionError
          else Inr \<lparr>label_column = label_column', rescale_range = Some r\<rparr>)"

text \<open>
  \<^verbatim>\<open>float\<close> on a string is Python's own; it is a parameter \<open>py_float\<close> of the model. The
  constructor guarantees two entries in \<^verbatim>\<open>rescale_range\<close>; on any other object the model
  reports the \<^verbatim>\<open>IndexError\<close> Python would. The chained comparison
  \<^verbatim>\<open>0 <= label <= 1\<close> is the conjunction of its two halves.
\<close>

definition NumericLabelTensorizer_numberize ::
  "'f float_ops \<Rightarrow> (string \<Rightarrow> error + 'f) \<Rightarrow> 'f NumericLabelTensorizer \<Rightarrow> row
     \<Rightarrow> error + 'f" where
  "NumericLabelTensorizer_numberize ops py_float self row =
     (case row_text row (NumericLabelTensorizer.label_column self) of
        Inl e \<Rightarrow> Inl e
      | Inr s \<Rightarrow>
          (case py_float s of
             Inl e \<Rightarrow> Inl e
           | Inr label \<Rightarrow>
               (case rescale_range self of
                  None \<Rightarrow> Inr label
                | Some r \<Rightarrow>
                    if length r < 2 then Inl IndexError
                    else
                      (let label = sub ops label (r ! 0)
                       in case truediv ops label (sub ops (r ! 1) (r ! 0)) of
                            None \<Rightarrow> Inl ZeroDivisionError
                          | Some label \<Rightarrow>
                              if int_le ops 0 label \<and> le_int ops label 1 then Inr label
                              else Inl AssertionError))))"

text \<open>
  The facts of double arithmetic that the boundary cases of the rescaling to the range
  from 0 to 10 rest on. All of them hold of IEEE doubles: subtracting zero changes nothing,
  dividing by ten raises nothing, 0 / 10 and 10 / 10 are exact, -1 / 10 is below zero,
  11 / 10 is above one, and 0.0 and 1.0 lie between the ints 0 and 1.
\<close>

definition small_int_arithmetic :: "'f float_ops \<Rightarrow> bool" where
  "small_int_arithmetic ops \<longleftrightarrow>
     (\<forall>a. sub ops a (from_int ops 0) = a) \<and>
     (\<forall>a. truediv ops a (from_int ops 10) \<noteq> None) \<and>
     truediv ops (from_int ops 0) (from_int ops 10) = Some (from_int ops 0) \<and>
     truediv ops (from_int ops 10) (from_int ops 10) = Some (from_int ops 1) \<and>
     (\<forall>q. truediv ops (from_int ops (- 1)) (from_int ops 10) = Some q \<longrightarrow> \<not> int_le ops 0 q) \<and>
     (\<forall>q. truediv ops (from_int ops 11) (from_int ops 10) = Some q \<longrightarrow> \<not> le_int ops q 1) \<and>
     int_le ops 0 (from_int ops 0) \<and> le_int ops (from_int ops 0) 1 \<and>
     int_le ops 0 (from_int ops 1) \<and> le_int ops (from_int ops 1) 1"

section \<open>FloatListTensorizer\<close>

record FloatListTensorizer =
  column :: string
  error_check :: bool
  dim :: "int option"

definition FloatListTensorizer_init ::
  "string \<Rightarrow> bool \<Rightarrow> int option \<Rightarrow> error + FloatListTensorizer" where
  "FloatListTensorizer_init column' error_check' dim' =
     (if \<not> error_check' \<or> dim' \<noteq> None
      then Inr \<lparr>column = column', error_check = error_check', dim = dim'\<rparr>
      else Inl AssertionError)"

subsection \<open>The four rewrite rules\<close>

text \<open>
  Each \<^verbatim>\<open>re.sub\<close> of \<^verbatim>\<open>numberize\<close> is a scan from the left: where the pattern matches
  at the current position the (greedy) match is replaced and the scan goes on behind it,
  elsewhere the character is copied. None of the four patterns matches the empty string.
\<close>

definition is_space :: "char \<Rightarrow> bool" where
  "is_space c \<longleftrightarrow> c = CHR '' ''"

definition is_digit :: "char \<Rightarrow> bool" where
  "is_digit c \<longleftrightarrow> c \<in> set ''0123456789''"

text \<open>\<^verbatim>\<open>strip_begin = re.sub(r"\[ +", "[", s)\<close>\<close>

function strip_begin :: "string \<Rightarrow> string" where
  "strip_begin [] = []"
| "strip_begin (c # cs) =
     (if c = CHR ''['' \<and> takeWhile is_space cs \<noteq> []
      then CHR ''['' # strip_begin (dropWhile is_space cs)
      else c # strip_begin cs)"
  by pat_completeness auto
termination
  by (relation "measure length") (auto simp: length_dropWhile_le less_Suc_eq_le)

text \<open>
  \<^verbatim>\<open>strip_end = re.sub(r" +\]", "]", s)\<close>: a run of spaces matches only if the bracket
  follows the whole run.
\<close>

function strip_end :: "string \<Rightarrow> string" where
  "strip_end [] = []"
| "strip_end (c # cs) =
     (if is_space c \<and> take 1 (dropWhile is_space cs) = '']''
      then CHR '']'' # strip_end (drop 1 (dropWhile is_space cs))
      else c # strip_end cs)"
  by pat_completeness auto
termination
  by (relation "measure length")
     (auto simp: less_Suc_eq_le intro: le_trans [OF diff_le_self length_dropWhile_le])

text \<open>
  \<^verbatim>\<open>point_fixed = re.sub(r"([0-9]+)[.]([^0-9]+)", "\\1.0\\2", s)\<close>: digits, a point and
  at least one character that is not a digit; the replacement puts \<open>0\<close> after the point.
\<close>

function point_fixed :: "string \<Rightarrow> string" where
  "point_fixed [] = []"
| "point_fixed (c # cs) =
     (let digits = c # takeWhile is_digit cs;
          after_digits = dropWhile is_digit cs;
          others = takeWhile (\<lambda>x. \<not> is_digit x) (drop 1 after_digits)
      in if is_digit c \<and> take 1 after_digits = ''.'' \<and> others \<noteq> []
         then digits @ ''.0'' @ others @
              point_fixed (dropWhile (\<lambda>x. \<not> is_digit x) (drop 1 after_digits))
         else c # point_fixed cs)"
  by pat_completeness auto
termination
proof (relation "measure length", goal_cases)
  case 1
  show ?case by simp
next
  case (2 c cs digits after_digits others)
  have "length (dropWhile (\<lambda>x. \<not> is_digit x) (drop 1 (dropWhile is_digit cs)))
          \<le> length (drop 1 (dropWhile is_digit cs))"
    by (rule length_dropWhile_le)
  also have "\<dots> \<le> length (dropWhile is_digit cs)"
    by simp
  also have "\<dots> \<le> length cs"
    by (rule length_dropWhile_le)
  finally show ?case
    using 2 by simp
next
  case 3
  then show ?case by simp
qed

text \<open>
  \<^verbatim>\<open>json_input = re.sub(r",? +", ",", s)\<close>: an optional comma and the run of spaces
  behind it; a comma with no space behind it is not matched.
\<close>

function json_input :: "string \<Rightarrow> string" where
  "json_input [] = []"
| "json_input (c # cs) =
     (if c = CHR '','' \<and> takeWhile is_space cs \<noteq> []
      then CHR '','' # json_input (dropWhile is_space cs)
      else if is_space c
      then CHR '','' # json_input (dropWhile is_space cs)
      else c # json_input cs)"
  by pat_completeness auto
termination
  by (relation "measure length") (auto simp: length_dropWhile_le less_Suc_eq_le)

text \<open>
  The equations of the four scans are used by evaluation only; they are taken out of the
  simplifier's default set, which would otherwise unfold them on every text it meets.
\<close>

declare strip_begin.simps [simp del]
declare strip_end.simps [simp del]
declare point_fixed.simps [simp del]
declare json_input.simps [simp del]

subsection \<open>numberize\<close>

text \<open>
  \<^verbatim>\<open>float(n)\<close> on an element of the parsed list: a float is returned as it is and a
  boolean converts; an \<^verbatim>\<open>int\<close> goes through \<^verbatim>\<open>float\<close> on ints, which rounds and raises
  \<^verbatim>\<open>OverflowError\<close> beyond the range of a double (the parameter \<open>int_float\<close>); a string
  goes through \<^verbatim>\<open>float\<close> on strings (the parameter \<open>py_float\<close>); \<^verbatim>\<open>None\<close>, lists and
  dicts raise \<^verbatim>\<open>TypeError\<close>.
\<close>

fun float_of_json ::
  "(string \<Rightarrow> error + rat) \<Rightarrow> (int \<Rightarrow> error + rat) \<Rightarrow> json \<Rightarrow> error + rat" where
  "float_of_json py_float int_float (JInt i) = int_float i"
| "float_of_json py_float int_float (JFloat r) = Inr r"
| "float_of_json py_float int_float (JBool b) = Inr (if b then 1 else 0)"
| "float_of_json py_float int_float (JString s) = py_float s"
| "float_of_json py_float int_float JNull = Inl TypeError"
| "float_of_json py_float int_float (JArray _) = Inl TypeError"
| "float_of_json py_float int_float (JObject _) = Inl TypeError"

text \<open>The list comprehension \<^verbatim>\<open>[float(n) for n in res]\<close> stops at the first failure.\<close>

fun floats ::
  "(string \<Rightarrow> error + rat) \<Rightarrow> (int \<Rightarrow> error + rat) \<Rightarrow> json list \<Rightarrow> error + rat list" where
  "floats py_float int_float [] = Inr []"
| "floats py_float int_float (n # ns) =
     (case float_of_json py_float int_float n of
        Inl e \<Rightarrow> Inl e
      | Inr x \<Rightarrow>
          (case floats py_float int_float ns of
             Inl e \<Rightarrow> Inl e
           | Inr xs \<Rightarrow> Inr (x # xs)))"

text \<open>
  \<^verbatim>\<open>json.loads\<close> is Python's own and a parameter \<open>json_loads\<close> of the model, \<open>None\<close>
  standing for \<^verbatim>\<open>JSONDecodeError\<close>.
\<close>

definition FloatListTensorizer_numberize ::
  "(string \<Rightarrow> json option) \<Rightarrow> (string \<Rightarrow> error + rat) \<Rightarrow> (int \<Rightarrow> error + rat)
     \<Rightarrow> FloatListTensorizer \<Rightarrow> row \<Rightarrow> error + rat list" where
  "FloatListTensorizer_numberize json_loads py_float int_float self row =
     (case row_text row (column self) of
        Inl e \<Rightarrow> Inl e
      | Inr s \<Rightarrow>
          (let text = json_input (point_fixed (strip_end (strip_begin s)))
           in case json_loads text of
                None \<Rightarrow> Inl (UnableToParse s text)
              | Some (JArray res) \<Rightarrow>
                  if error_check self \<and> Some (int (length res)) \<noteq> dim self
                  then Inl (DimensionAssertion (dim self) (length res) res)
                  else floats py_float int_float res
              | Some res \<Rightarrow> Inl (NotAFloatList res)))"

subsection \<open>A model of \<^verbatim>\<open>json.loads\<close> for lists of numbers\<close>

text \<open>
  The concrete evaluations below need the value of \<^verbatim>\<open>json.loads\<close> on a few texts. The
  following reader covers JSON texts made of brackets, commas, white space, numbers and
  the literals \<^verbatim>\<open>true\<close>, \<^verbatim>\<open>false\<close> and \<^verbatim>\<open>null\<close>; it answers \<open>None\<close> on anything else,
  so it stands for \<^verbatim>\<open>json.loads\<close> only on texts without string or object literals and
  without \<^verbatim>\<open>NaN\<close> and \<^verbatim>\<open>Infinity\<close>.
\<close>

datatype jtok = LBracket | RBracket | Comma | Scalar json

definition digits_value :: "string \<Rightarrow> nat" where
  "digits_value ds = foldl (\<lambda>n c. 10 * n + (of_char c - 48)) 0 ds"

definition is_number_char :: "char \<Rightarrow> bool" where
  "is_number_char c \<longleftrightarrow> is_digit c \<or> c \<in> set ''+-.eE''"

text \<open>
  A whole run of number characters read as one JSON number
  \<^verbatim>\<open>-?(0|[1-9][0-9]*)(\.[0-9]+)?([eE][-+]?[0-9]+)?\<close>: an \<^verbatim>\<open>int\<close> without fraction and
  exponent, a \<^verbatim>\<open>float\<close> otherwise.
\<close>

definition json_number :: "string \<Rightarrow> json option" where
  "json_number run =
     (let negative = (take 1 run = ''-'');
          body = (if negative then drop 1 run else run);
          int_part = takeWhile is_digit body;
          r1 = dropWhile is_digit body;
          has_frac = (take 1 r1 = ''.'');
          frac = (if has_frac then takeWhile is_digit (drop 1 r1) else []);
          r2 = (if has_frac then dropWhile is_digit (drop 1 r1) else r1);
          has_exp = (take 1 r2 = ''e'' \<or> take 1 r2 = ''E'');
          r3 = (if has_exp then drop 1 r2 else r2);
          exp_negative = (has_exp \<and> take 1 r3 = ''-'');
          exp_digits = (if has_exp \<and> (take 1 r3 = ''-'' \<or> take 1 r3 = ''+'')
                        then drop 1 r3 else r3);
          mantissa = (of_nat (digits_value int_part)
                       + of_nat (digits_value frac) / 10 ^ length frac :: rat);
          scale = (if exp_negative then 1 / 10 ^ digits_value exp_digits
                   else 10 ^ digits_value exp_digits :: rat)
      in if int_part = [] \<or> (take 1 int_part = ''0'' \<and> length int_part \<noteq> 1) then None
         else if has_frac \<and> frac = [] then None
         else if has_exp \<and> (exp_digits = [] \<or> \<not> list_all is_digit exp_digits) then None
         else if \<not> has_exp \<and> r2 \<noteq> [] then None
         else if \<not> has_frac \<and> \<not> has_exp
         then Some (JInt (if negative then - int (digits_value int_part)
                          else int (digits_value int_part)))
         else Some (JFloat (if negative then - (mantissa * scale) else mantissa * scale)))"

definition jcons :: "jtok \<Rightarrow> jtok list option \<Rightarrow> jtok list option" where
  "jcons t r = (case r of None \<Rightarrow> None | Some ts \<Rightarrow> Some (t # ts))"

function json_lex :: "string \<Rightarrow> jtok list option" where
  "json_lex [] = Some []"
| "json_lex (c # cs) =
     (if c \<in> set [CHR '' '', CHR 0x09, CHR 0x0A, CHR 0x0D] then json_lex cs
      else if c = CHR ''['' then jcons LBracket (json_lex cs)
      else if c = CHR '']'' then jcons RBracket (json_lex cs)
      else if c = CHR '','' then jcons Comma (json_lex cs)
      else if is_number_char c
      then (case json_number (c # takeWhile is_number_char cs) of
              None \<Rightarrow> None
            | Some v \<Rightarrow> jcons (Scalar v) (json_lex (dropWhile is_number_char cs)))
      else if take 4 (c # cs) = ''true'' then jcons (Scalar (JBool True)) (json_lex (drop 3 cs))
      else if take 5 (c # cs) = ''false'' then jcons (Scalar (JBool False)) (json_lex (drop 4 cs))
      else if take 4 (c # cs) = ''null'' then jcons (Scalar JNull) (json_lex (drop 3 cs))
      else None)"
  by pat_completeness auto
termination
  by (relation "measure length") (auto simp: length_dropWhile_le less_Suc_eq_le)

declare json_lex.simps [simp del]

text \<open>
  The reader of arrays keeps the stack of the arrays that are open, innermost first, each
  with the elements read so far, and what may come next.
\<close>

datatype jstate = AfterOpen | AfterComma | AfterValue

fun json_array :: "json list list \<Rightarrow> jstate \<Rightarrow> jtok list \<Rightarrow> json option" where
  "json_array [] st ts = None"
| "json_array (fr # stk) st [] = None"
| "json_array (fr # stk) st (Scalar v # ts) =
     (if st = AfterValue then None else json_array ((fr @ [v]) # stk) AfterValue ts)"
| "json_array (fr # stk) st (LBracket # ts) =
     (if st = AfterValue then None else json_array ([] # fr # stk) AfterOpen ts)"
| "json_array (fr # stk) st (Comma # ts) =
     (if st = AfterValue then json_array (fr # stk) AfterComma ts else None)"
| "json_array (fr # stk) st (RBracket # ts) =
     (if st = AfterComma then None
      else (case stk of
              [] \<Rightarrow> if ts = [] then Some (JArray fr) else None
            | outer # stk' \<Rightarrow> json_array ((outer @ [JArray fr]) # stk') AfterValue ts))"

definition json_loads_lists :: "string \<Rightarrow> json option" where
  "json_loads_lists s =
     (case json_lex s of
        None \<Rightarrow> None
      | Some [Scalar v] \<Rightarrow> Some v
      | Some (LBracket # ts) \<Rightarrow> json_array [[]] AfterOpen ts
      | Some _ \<Rightarrow> None)"

text \<open>
  Likewise \<^verbatim>\<open>float\<close> on a string that is a JSON number; \<^verbatim>\<open>float\<close> accepts more texts
  than these, on which this reader does not stand for it.
\<close>

definition float_of_number :: "string \<Rightarrow> error + rat" where
  "float_of_number s =
     (case json_number s of
        Some (JInt i) \<Rightarrow> Inr (of_int i)
      | Some (JFloat r) \<Rightarrow> Inr r
      | _ \<Rightarrow> Inl FloatValueError)"

text \<open>
  And \<^verbatim>\<open>float\<close> on an \<^verbatim>\<open>int\<close>: the nearest number with 53 significant bits, a tie going
  to the even one, and \<^verbatim>\<open>OverflowError\<close> when that is \<open>2 ^ 1024\<close> or more.
\<close>

function bit_length :: "nat \<Rightarrow> nat" where
  "bit_length n = (if n = 0 then 0 else Suc (bit_length (n div 2)))"
  by pat_completeness auto
termination
  by (relation "measure id") auto

declare bit_length.simps [simp del]

definition float_of_int_nearest :: "int \<Rightarrow> error + rat" where
  "float_of_int_nearest i =
     (let n = nat \<bar>i\<bar>;
          s = bit_length n - 53;
          q = n div 2 ^ s;
          r = n mod 2 ^ s;
          q' = (if 2 * r > 2 ^ s \<or> (2 * r = 2 ^ s \<and> odd q) then q + 1 else q);
          v = q' * 2 ^ s
      in if v \<ge> 2 ^ 1024 then Inl OverflowError
         else Inr (if i < 0 then - of_nat v else of_nat v))"

section \<open>WordLabelTensorizer\<close>

definition NO_LABEL :: string where
  "NO_LABEL = ''NO_LABEL''"

record WordLabelTensorizer =
  slot_column :: string
  text_column :: string
  allow_unknown :: bool
  tokenizer :: "string \<Rightarrow> token list"
  vocab :: "vocab option"

text \<open>
  The local variables of the \<^verbatim>\<open>while\<close> loop of \<^verbatim>\<open>WordLabelTensorizer.numberize\<close>, its
  condition, its body, and the loop itself.
\<close>

record align_state =
  current_slot :: nat
  current_token :: nat
  labels :: "string list"

definition align_cond :: "token list \<Rightarrow> slot list \<Rightarrow> align_state \<Rightarrow> bool" where
  "align_cond tokens slots st \<longleftrightarrow>
     current_token st < length tokens \<and> current_slot st < length slots"

definition align_body :: "token list \<Rightarrow> slot list \<Rightarrow> align_state \<Rightarrow> align_state" where
  "align_body tokens slots st =
     (let t = tokens ! current_token st;
          slot = slots ! current_slot st
      in if tok_start t > slot_end slot
         then st\<lparr>current_slot := current_slot st + 1\<rparr>
         else st\<lparr>current_token := current_token st + 1,
                 labels := labels st @
                   [if tok_end t > slot_start slot then slot_label slot else NO_LABEL]\<rparr>)"

function align_loop :: "token list \<Rightarrow> slot list \<Rightarrow> align_state \<Rightarrow> align_state" where
  "align_loop tokens slots st =
     (if align_cond tokens slots st
      then align_loop tokens slots (align_body tokens slots st)
      else st)"
  by pat_completeness auto
termination
  by (relation "measure (\<lambda>(tokens, slots, st).
        (length tokens - current_token st) + (length slots - current_slot st))")
     (auto simp: align_cond_def align_body_def Let_def)

declare align_loop.simps [simp del]

definition WordLabelTensorizer_numberize ::
  "WordLabelTensorizer \<Rightarrow> row \<Rightarrow> error + nat list" where
  "WordLabelTensorizer_numberize self row =
     (case row_slots row (slot_column self) of
        Inl e \<Rightarrow> Inl e
      | Inr slots \<Rightarrow>
          (case row_text row (WordLabelTensorizer.text_column self) of
             Inl e \<Rightarrow> Inl e
           | Inr text \<Rightarrow>
               (let tokens = WordLabelTensorizer.tokenizer self text;
                    st = align_loop tokens slots
                           \<lparr>current_slot = 0, current_token = 0, labels = []\<rparr>
                in case WordLabelTensorizer.vocab self of
                     None \<Rightarrow> Inl AttributeError
                   | Some v \<Rightarrow> lookup_all v (labels st))))"

section \<open>Streaming a data source to the initializers\<close>

text \<open>
  The tensorizers of the module that are modelled here. \<^verbatim>\<open>CharacterTokenTensorizer\<close>,
  \<^verbatim>\<open>NumericLabelTensorizer\<close> and \<^verbatim>\<open>FloatListTensorizer\<close> keep the \<^verbatim>\<open>initialize\<close> of
  the base class, which returns at once.
\<close>

datatype 'f tensorizer =
    TokenT TokenTensorizer
  | CharacterTokenT CharacterTokenTensorizer
  | LabelT LabelTensorizer
  | NumericLabelT "'f NumericLabelTensorizer"
  | FloatListT FloatListTensorizer
  | WordLabelT WordLabelTensorizer

text \<open>
  A generator object made by \<^verbatim>\<open>tensorizer.initialize()\<close>: not started yet, suspended at
  the \<^verbatim>\<open>row = yield\<close> of its loop (with the tensorizer it belongs to and, where the
  builder is a local variable, the builder), or closed. \<^verbatim>\<open>TokenTensorizer\<close> keeps its
  builder in \<^verbatim>\<open>self.vocab_builder\<close>.
\<close>

datatype 'f generator =
    Created "'f tensorizer"
  | TokenLoop TokenTensorizer
  | LabelLoop LabelTensorizer vocab_builder
  | WordLabelLoop WordLabelTensorizer vocab_builder
  | Closed "'f tensorizer"

text \<open>
  \<^verbatim>\<open>init.send(None)\<close> on a generator that has not started runs the body to the first
  \<^verbatim>\<open>yield\<close>; a body that returns first raises \<^verbatim>\<open>StopIteration\<close>. \<^verbatim>\<open>if self.vocab:\<close>
  is read as the test that a vocabulary is there.
\<close>

fun start :: "utils \<Rightarrow> 'f tensorizer \<Rightarrow> error + 'f generator" where
  "start u (TokenT self) =
     (if TokenTensorizer.vocab self \<noteq> None then Inl StopIteration
      else Inr (TokenLoop (self\<lparr>vocab_builder := Some (VocabBuilder u)\<rparr>)))"
| "start u (LabelT self) =
     (let builder = VocabBuilder u;
          builder = builder\<lparr>use_pad := False\<rparr>;
          builder = builder\<lparr>use_unk := LabelTensorizer.allow_unknown self\<rparr>
      in Inr (LabelLoop self builder))"
| "start u (WordLabelT self) =
     (let builder = VocabBuilder u;
          builder = add builder NO_LABEL;
          builder = builder\<lparr>use_unk := WordLabelTensorizer.allow_unknown self\<rparr>
      in Inr (WordLabelLoop self builder))"
| "start u (CharacterTokenT self) = Inl StopIteration"
| "start u (NumericLabelT self) = Inl StopIteration"
| "start u (FloatListT self) = Inl StopIteration"

text \<open>
  \<^verbatim>\<open>init.send(row)\<close>: one turn of the loop, from the \<^verbatim>\<open>yield\<close> back to it. A failure in
  the body is not caught by \<^verbatim>\<open>except GeneratorExit\<close> and leaves the generator.
\<close>

fun send :: "utils \<Rightarrow> 'f generator \<Rightarrow> row option \<Rightarrow> error + 'f generator" where
  "send u (Created t) None = start u t"
| "send u (Created t) (Some row) = Inl TypeError"
| "send u (TokenLoop self) None = Inl TypeError"
| "send u (TokenLoop self) (Some row) =
     (case row_text row (TokenTensorizer.text_column self) of
        Inl e \<Rightarrow> Inl e
      | Inr raw_text \<Rightarrow>
          (let tokenized = TokenTensorizer.tokenizer self raw_text
           in case vocab_builder self of
                None \<Rightarrow> Inl AttributeError
              | Some b \<Rightarrow>
                  Inr (TokenLoop
                        (self\<lparr>vocab_builder := Some (add_all b (map tok_value tokenized))\<rparr>))))"
| "send u (LabelLoop self builder) None = Inl TypeError"
| "send u (LabelLoop self builder) (Some row) =
     (case row_text row (LabelTensorizer.label_column self) of
        Inl e \<Rightarrow> Inl e
      | Inr labels' \<Rightarrow> Inr (LabelLoop self (add_all builder (split CHR '','' labels'))))"
| "send u (WordLabelLoop self builder) None = Inl TypeError"
| "send u (WordLabelLoop self builder) (Some row) =
     (case row_slots row (slot_column self) of
        Inl e \<Rightarrow> Inl e
      | Inr slots \<Rightarrow> Inr (WordLabelLoop self (add_all builder (map slot_label slots))))"
| "send u (Closed t) x = Inl StopIteration"

text \<open>
  \<^verbatim>\<open>init.close()\<close> raises \<^verbatim>\<open>GeneratorExit\<close> at the \<^verbatim>\<open>yield\<close> of a suspended generator,
  whose handler freezes the vocabulary; on a generator that has not started or is closed
  already no code of the body runs.
\<close>

fun close :: "utils \<Rightarrow> 'f generator \<Rightarrow> 'f generator" where
  "close u (Created t) = Closed t"
| "close u (TokenLoop self) =
     Closed (TokenT (self\<lparr>TokenTensorizer.vocab :=
                             map_option (make_vocab u) (vocab_builder self)\<rparr>))"
| "close u (LabelLoop self builder) =
     Closed (LabelT (self\<lparr>LabelTensorizer.labels := Some (make_vocab u builder)\<rparr>))"
| "close u (WordLabelLoop self builder) =
     Closed (WordLabelT (self\<lparr>WordLabelTensorizer.vocab := Some (make_vocab u builder)\<rparr>))"
| "close u (Closed t) = Closed t"

fun is_closed :: "'f generator \<Rightarrow> bool" where
  "is_closed (Closed t) = True"
| "is_closed g = False"

text \<open>
  The first loop of \<^verbatim>\<open>initialize_tensorizers\<close>: every initializer is kicked, and kept
  in \<^verbatim>\<open>initializers\<close> unless the kick raised \<^verbatim>\<open>StopIteration\<close>; any other failure
  leaves the function.
\<close>

fun kick ::
  "utils \<Rightarrow> 'f generator list \<Rightarrow> 'f generator list \<Rightarrow> error + 'f generator list" where
  "kick u [] initializers = Inr initializers"
| "kick u (init # inits) initializers =
     (case send u init None of
        Inl e \<Rightarrow> if e = StopIteration then kick u inits initializers else Inl e
      | Inr init' \<Rightarrow> kick u inits (initializers @ [init']))"

text \<open>The inner loop \<^verbatim>\<open>for init in initializers: init.send(row)\<close>.\<close>

fun send_row :: "utils \<Rightarrow> row \<Rightarrow> 'f generator list \<Rightarrow> error + 'f generator list" where
  "send_row u row [] = Inr []"
| "send_row u row (init # inits) =
     (case send u init (Some row) of
        Inl e \<Rightarrow> Inl e
      | Inr init' \<Rightarrow>
          (case send_row u row inits of
             Inl e \<Rightarrow> Inl e
           | Inr inits' \<Rightarrow> Inr (init' # inits')))"

text \<open>The outer loop \<^verbatim>\<open>for row in data_source\<close>.\<close>

fun send_rows ::
  "utils \<Rightarrow> row list \<Rightarrow> 'f generator list \<Rightarrow> error + 'f generator list" where
  "send_rows u [] initializers = Inr initializers"
| "send_rows u (row # data_source) initializers =
     (case send_row u row initializers of
        Inl e \<Rightarrow> Inl e
      | Inr initializers' \<Rightarrow> send_rows u data_source initializers')"

text \<open>
  The function has no \<^verbatim>\<open>close()\<close> and returns nothing. The generators live in its local
  list \<^verbatim>\<open>initializers\<close> only: when the function returns, the list is released and the
  interpreter closes each generator in it, which raises \<^verbatim>\<open>GeneratorExit\<close> at its
  \<^verbatim>\<open>yield\<close> and so runs its handler. The effect of a call is on the tensorizers the
  generators belong to, so the model returns the generators as they are after that
  release. The dict of tensorizers is a list of pairs in insertion order, the order of
  \<^verbatim>\<open>values()\<close>. A failure leaves the function at once and is all the model says of that
  call.
\<close>

definition initialize_tensorizers ::
  "utils \<Rightarrow> (string \<times> 'f tensorizer) list \<Rightarrow> row list \<Rightarrow> error + 'f generator list" where
  "initialize_tensorizers u tensorizers data_source =
     (case kick u (map (\<lambda>tensorizer. Created tensorizer) (map snd tensorizers)) [] of
        Inl e \<Rightarrow> Inl e
      | Inr initializers \<Rightarrow>
          (case (if initializers \<noteq> [] then send_rows u data_source initializers
                 else Inr initializers) of
             Inl e \<Rightarrow> Inl e
           | Inr initializers' \<Rightarrow> Inr (map (close u) initializers')))"

text \<open>One generator alone receiving the rows of a data source, one after the other.\<close>

fun receive :: "utils \<Rightarrow> 'f generator \<Rightarrow> row list \<Rightarrow> error + 'f generator" where
  "receive u g [] = Inr g"
| "receive u g (row # rows) =
     (case send u g (Some row) of Inl e \<Rightarrow> Inl e | Inr g' \<Rightarrow> receive u g' rows)"

text \<open>The initializers that suspend when kicked, in the order of the dict.\<close>

fun suspending :: "utils \<Rightarrow> 'f tensorizer list \<Rightarrow> 'f generator list" where
  "suspending u [] = []"
| "suspending u (t # ts) =
     (case start u t of Inl e \<Rightarrow> suspending u ts | Inr g \<Rightarrow> g # suspending u ts)"

section \<open>An instance of the parameters\<close>

text \<open>
  Where a theorem is tried at a concrete input, the parameters need values. This instance
  numbers the reserved slots that are switched on first and the accumulated symbols after
  them; no theorem about all inputs depends on it.
\<close>

fun index_of :: "string list \<Rightarrow> string \<rightharpoonup> nat" where
  "index_of [] s = None"
| "index_of (x # xs) s = (if x = s then Some 0 else map_option Suc (index_of xs s))"

definition example_make_vocab :: "vocab_builder \<Rightarrow> vocab" where
  "example_make_vocab b =
     (let vocab_list = (if use_pad b then [''__PAD__''] else [])
                       @ (if use_unk b then [''__UNKNOWN__''] else [])
                       @ symbols b
      in \<lparr>idx = index_of vocab_list,
          unk_index = (if use_unk b then index_of vocab_list ''__UNKNOWN__'' else None)\<rparr>)"

definition example_utils :: utils where
  "example_utils =
     \<lparr>BOS = ''__BEGIN_OF_SENTENCE__'',
      EOS = ''__END_OF_SENTENCE__'',
      VocabBuilder = \<lparr>use_pad = True, use_unk = True, symbols = []\<rparr>,
      make_vocab = example_make_vocab\<rparr>"

text \<open>
  Exact arithmetic on the rationals, as an instance of the float operations: it agrees
  with double arithmetic wherever that does not round.
\<close>

definition exact_ops :: "rat float_ops" where
  "exact_ops =
     \<lparr>sub = (\<lambda>a b. a - b),
      truediv = (\<lambda>a b. if b = 0 then None else Some (a / b)),
      less = (\<lambda>a b. a < b),
      int_le = (\<lambda>i a. of_int i \<le> a),
      le_int = (\<lambda>a i. a \<le> of_int i),
      from_int = of_int\<rparr>"

section \<open>The alignment of span labels with tokens\<close>

text \<open>
  C6. In the alignment loop of \<^verbatim>\<open>WordLabelTensorizer.numberize\<close>, at a step with a current
  token and a current span label, the loop goes on from the state the body computes, and:
  if the token starts strictly behind the end of the span label, only the span-label
  pointer advances; otherwise only the token pointer advances and the token gets the text
  of the span label exactly when the token ends strictly behind the start of the span
  label, else the no-label sentinel. On the text "play the song", tokenized as
  (play,0,4), (the,5,8), (song,9,13), with the one span label (song_name,9,13), the labels
  are no-label, no-label, song_name, and \<^verbatim>\<open>numberize\<close> returns their indices.
\<close>

theorem align_step_rule:
  assumes "current_token st < length tokens" and "current_slot st < length slots"
  shows "(let t = tokens ! current_token st;
              slot = slots ! current_slot st;
              st' = align_body tokens slots st
          in align_loop tokens slots st = align_loop tokens slots st' \<and>
             (tok_start t > slot_end slot \<longrightarrow>
                current_slot st' = current_slot st + 1 \<and>
                current_token st' = current_token st \<and>
                align_state.labels st' = align_state.labels st) \<and>
             (\<not> tok_start t > slot_end slot \<longrightarrow>
                current_token st' = current_token st + 1 \<and>
                current_slot st' = current_slot st \<and>
                align_state.labels st' = align_state.labels st @
                  [if tok_end t > slot_start slot then slot_label slot else NO_LABEL]))
         \<and> align_state.labels
             (align_loop [Token ''play'' 0 4, Token ''the'' 5 8, Token ''song'' 9 13]
                [Slot ''song_name'' 9 13]
                \<lparr>current_slot = 0, current_token = 0, labels = []\<rparr>)
             = [NO_LABEL, NO_LABEL, ''song_name'']
         \<and> WordLabelTensorizer_numberize
             \<lparr>slot_column = ''slots'', text_column = ''text'', allow_unknown = False,
              tokenizer = (\<lambda>raw_text. [Token ''play'' 0 4, Token ''the'' 5 8, Token ''song'' 9 13]),
              vocab = Some \<lparr>idx = [NO_LABEL \<mapsto> 0, ''song_name'' \<mapsto> 1], unk_index = None\<rparr>\<rparr>
             [''text'' \<mapsto> Text ''play the song'', ''slots'' \<mapsto> Slots [Slot ''song_name'' 9 13]]
             = Inr [0, 0, 1]"
proof -
  have step: "align_loop tokens slots st = align_loop tokens slots (align_body tokens slots st)"
    using assms by (subst align_loop.simps) (simp add: align_cond_def)
  have ex: "align_loop [Token ''play'' 0 4, Token ''the'' 5 8, Token ''song'' 9 13]
                [Slot ''song_name'' 9 13]
                \<lparr>current_slot = 0, current_token = 0, labels = []\<rparr>
            = \<lparr>current_slot = 0, current_token = 3, labels = [NO_LABEL, NO_LABEL, ''song_name'']\<rparr>"
    by (simp add: align_loop.simps align_cond_def align_body_def Let_def)
  show ?thesis
    using step
    by (simp add: ex Let_def align_body_def WordLabelTensorizer_numberize_def row_slots_def
        row_text_def lookup_def NO_LABEL_def)
qed

theorem align_step_rule_witness:
  "current_token \<lparr>current_slot = 0, current_token = 0, labels = []\<rparr> < length [Token ''play'' 0 4]
   \<and> current_slot \<lparr>current_slot = 0, current_token = 0, labels = []\<rparr> < length [Slot ''x'' 9 13]
   \<and> align_body [Token ''play'' 0 4] [Slot ''x'' 9 13]
        \<lparr>current_slot = 0, current_token = 0, labels = []\<rparr>
      = \<lparr>current_slot = 0, current_token = 1, labels = [NO_LABEL]\<rparr>"
  using align_step_rule [of "\<lparr>current_slot = 0, current_token = 0, labels = []\<rparr>"
      "[Token ''play'' 0 4]" "[Slot ''x'' 9 13]"]
  by (simp add: Let_def align_body_def)

text \<open>
  C1. The specification has \<^verbatim>\<open>WordLabelTensorizer.numberize\<close> return one label id per token,
  as its docstring says. The loop ends as soon as the span labels are exhausted, and the
  tokens behind that point get no entry: on "play the song" with the one span label
  (verb,0,4) the three tokens yield the single id of verb.
\<close>

theorem numberize_drops_trailing_tokens:
  "WordLabelTensorizer_numberize
     \<lparr>slot_column = ''slots'', text_column = ''text'', allow_unknown = False,
      tokenizer = (\<lambda>raw_text. [Token ''play'' 0 4, Token ''the'' 5 8, Token ''song'' 9 13]),
      vocab = Some \<lparr>idx = [NO_LABEL \<mapsto> 0, ''verb'' \<mapsto> 1], unk_index = None\<rparr>\<rparr>
     [''text'' \<mapsto> Text ''play the song'', ''slots'' \<mapsto> Slots [Slot ''verb'' 0 4]]
   = Inr [1]"
proof -
  have ex: "align_loop [Token ''play'' 0 4, Token ''the'' 5 8, Token ''song'' 9 13]
                [Slot ''verb'' 0 4]
                \<lparr>current_slot = 0, current_token = 0, labels = []\<rparr>
            = \<lparr>current_slot = 1, current_token = 1, labels = [''verb'']\<rparr>"
    by (simp add: align_loop.simps align_cond_def align_body_def Let_def)
  show ?thesis
    by (simp add: ex Let_def WordLabelTensorizer_numberize_def row_slots_def
        row_text_def lookup_def NO_LABEL_def)
qed

section \<open>Token sequences\<close>

text \<open>
  C10. For a row whose text the tokenizer splits into no tokens, \<^verbatim>\<open>TokenTensorizer.numberize\<close>
  with neither boundary token raises: the unpacking of \<^verbatim>\<open>zip(*...)\<close> in
  \<^verbatim>\<open>_lookup_tokens\<close> fails on the empty sequence, and no empty id sequence is returned.
\<close>

theorem numberize_empty_tokens_raises:
  assumes "row (TokenTensorizer.text_column self) = Some (Text raw_text)"
    and "TokenTensorizer.tokenizer self raw_text = []"
    and "\<not> add_bos_token self" and "\<not> add_eos_token self"
  shows "TokenTensorizer_numberize u self row = Inl UnpackError"
  using assms
  by (simp add: TokenTensorizer_numberize_def row_text_def lookup_tokens_def py_prefix_def
      zip_star_def Let_def)

theorem numberize_empty_tokens_raises_witness:
  "TokenTensorizer_numberize example_utils
     (TokenTensorizer_init ''text'' (\<lambda>raw_text. []) False False False None
        (Some \<lparr>idx = Map.empty, unk_index = Some 0\<rparr>))
     [''text'' \<mapsto> Text ''''] = Inl UnpackError"
  by (rule numberize_empty_tokens_raises [where raw_text = "''''"])
     (simp_all add: TokenTensorizer_init_def)

text \<open>Facts about the slice, the vocabulary lookup and \<^verbatim>\<open>_lookup_tokens\<close>.\<close>

lemma length_py_prefix:
  "0 \<le> n \<Longrightarrow> length (py_prefix n xs) = min (length xs) (nat n)"
  by (simp add: py_prefix_def)

lemma lookup_all_length:
  "lookup_all v ss = Inr ids \<Longrightarrow> length ids = length ss"
  by (induction ss arbitrary: ids) (auto split: sum.splits)

lemma lookup_all_unk:
  "unk_index v = Some unk \<Longrightarrow>
   lookup_all v ss = Inr (map (\<lambda>s. case idx v s of Some i \<Rightarrow> i | None \<Rightarrow> unk) ss)"
  by (induction ss) (auto simp: lookup_def split: option.splits)

lemma lookup_tokens_eq:
  assumes "0 \<le> max_seq_len self"
  shows "lookup_tokens u self raw_text =
     (if injected u self raw_text = [] then Inl UnpackError
      else case TokenTensorizer.vocab self of
             None \<Rightarrow> Inl AttributeError
           | Some v \<Rightarrow>
               (case lookup_all v (injected u self raw_text) of
                  Inl e \<Rightarrow> Inl e
                | Inr tokens \<Rightarrow>
                    Inr (tokens,
                      (if add_bos_token self then [- 1] else [])
                        @ map tok_start (take (nat (max_seq_len self)) (TokenTensorizer.tokenizer self raw_text))
                        @ (if add_eos_token self then [- 1] else []),
                      (if add_bos_token self then [- 1] else [])
                        @ map tok_end (take (nat (max_seq_len self)) (TokenTensorizer.tokenizer self raw_text))
                        @ (if add_eos_token self then [- 1] else []))))"
  using assms
  by (simp add: lookup_tokens_def injected_def py_prefix_def zip_star_def Let_def
      split: option.splits sum.splits)

lemma length_injected:
  "0 \<le> max_seq_len self \<Longrightarrow>
   int (length (injected u self raw_text)) =
     min (int (length (TokenTensorizer.tokenizer self raw_text))
            + (if add_bos_token self then 1 else 0) + (if add_eos_token self then 1 else 0))
         (max_seq_len self
            + (if add_bos_token self then 1 else 0) + (if add_eos_token self then 1 else 0))"
  by (auto simp: injected_def min_def)

text \<open>
  C7. For a text row and a limit \<^verbatim>\<open>self.max_seq_len\<close> that is not negative: whenever
  \<^verbatim>\<open>TokenTensorizer.numberize\<close> returns a pair, the reported length is the length of the
  id sequence and equals min(token count + bos + eos, max_seq_len + bos + eos); and when
  the vocabulary reserves UNK and at least one token is left after truncation and boundary
  injection, it does return the pair, each id being the index of the token value or the
  UNK index for an unknown value. The limit is the attribute \<^verbatim>\<open>self.max_seq_len\<close>, which
  the constructor sets to \<open>2 ^ 30\<close> for a configured \<^verbatim>\<open>None\<close> or \<open>0\<close>.
\<close>

theorem numberize_length:
  assumes "row (TokenTensorizer.text_column self) = Some (Text raw_text)"
    and "0 \<le> max_seq_len self"
  shows "(\<forall>ids n. TokenTensorizer_numberize u self row = Inr (ids, n) \<longrightarrow>
            n = length ids \<and>
            int n = min (int (length (TokenTensorizer.tokenizer self raw_text))
                           + (if add_bos_token self then 1 else 0)
                           + (if add_eos_token self then 1 else 0))
                        (max_seq_len self
                           + (if add_bos_token self then 1 else 0)
                           + (if add_eos_token self then 1 else 0)))
       \<and> (\<forall>v unk. TokenTensorizer.vocab self = Some v \<and> unk_index v = Some unk \<and>
             (TokenTensorizer.tokenizer self raw_text \<noteq> [] \<and> 0 < max_seq_len self
                \<or> add_bos_token self \<or> add_eos_token self) \<longrightarrow>
             TokenTensorizer_numberize u self row =
               Inr (map (\<lambda>s. case idx v s of Some i \<Rightarrow> i | None \<Rightarrow> unk)
                      ((if add_bos_token self
                        then [if use_eos_token_for_bos self then EOS u else BOS u] else [])
                       @ map tok_value (take (nat (max_seq_len self))
                                          (TokenTensorizer.tokenizer self raw_text))
                       @ (if add_eos_token self then [EOS u] else [])),
                    (if add_bos_token self then 1 else 0)
                      + min (length (TokenTensorizer.tokenizer self raw_text))
                            (nat (max_seq_len self))
                      + (if add_eos_token self then 1 else 0)))"
proof (intro conjI allI impI)
  fix ids n
  assume r: "TokenTensorizer_numberize u self row = Inr (ids, n)"
  from r assms obtain v where
    l: "lookup_all v (injected u self raw_text) = Inr ids" and n: "n = length ids"
    by (auto simp: TokenTensorizer_numberize_def row_text_def lookup_tokens_eq
        split: if_splits option.splits sum.splits)
  from l have "length ids = length (injected u self raw_text)"
    by (rule lookup_all_length)
  with n length_injected [OF assms(2), of u raw_text]
  show "n = length ids"
    and "int n = min (int (length (TokenTensorizer.tokenizer self raw_text))
                           + (if add_bos_token self then 1 else 0)
                           + (if add_eos_token self then 1 else 0))
                        (max_seq_len self
                           + (if add_bos_token self then 1 else 0)
                           + (if add_eos_token self then 1 else 0))"
    by simp_all
next
  fix v unk
  assume h: "TokenTensorizer.vocab self = Some v \<and> unk_index v = Some unk \<and>
             (TokenTensorizer.tokenizer self raw_text \<noteq> [] \<and> 0 < max_seq_len self
                \<or> add_bos_token self \<or> add_eos_token self)"
  then have ne: "injected u self raw_text \<noteq> []"
    by (auto simp: injected_def)
  from h have la: "lookup_all v (injected u self raw_text) =
      Inr (map (\<lambda>s. case idx v s of Some i \<Rightarrow> i | None \<Rightarrow> unk) (injected u self raw_text))"
    by (simp add: lookup_all_unk)
  show "TokenTensorizer_numberize u self row =
               Inr (map (\<lambda>s. case idx v s of Some i \<Rightarrow> i | None \<Rightarrow> unk)
                      ((if add_bos_token self
                        then [if use_eos_token_for_bos self then EOS u else BOS u] else [])
                       @ map tok_value (take (nat (max_seq_len self))
                                          (TokenTensorizer.tokenizer self raw_text))
                       @ (if add_eos_token self then [EOS u] else [])),
                    (if add_bos_token self then 1 else 0)
                      + min (length (TokenTensorizer.tokenizer self raw_text))
                            (nat (max_seq_len self))
                      + (if add_eos_token self then 1 else 0))"
    using assms h ne
    by (simp add: TokenTensorizer_numberize_def row_text_def lookup_tokens_eq la)
       (simp add: injected_def)
qed

theorem numberize_length_witness:
  "(let self = TokenTensorizer_init ''text''
                 (\<lambda>raw_text. [Token ''play'' 0 4, Token ''the'' 5 8, Token ''song'' 9 13])
                 True True False (Some 2)
                 (Some \<lparr>idx = [''__BEGIN_OF_SENTENCE__'' \<mapsto> 2, ''__END_OF_SENTENCE__'' \<mapsto> 3,
                               ''play'' \<mapsto> 4],
                        unk_index = Some 0\<rparr>);
        row = [''text'' \<mapsto> Text ''play the song'']
    in row (TokenTensorizer.text_column self) = Some (Text ''play the song'')
       \<and> 0 \<le> max_seq_len self
       \<and> TokenTensorizer_numberize example_utils self row = Inr ([2, 4, 0, 3], 4))"
  using numberize_length
    [of "[''text'' \<mapsto> Text ''play the song'']"
        "TokenTensorizer_init ''text''
                 (\<lambda>raw_text. [Token ''play'' 0 4, Token ''the'' 5 8, Token ''song'' 9 13])
                 True True False (Some 2)
                 (Some \<lparr>idx = [''__BEGIN_OF_SENTENCE__'' \<mapsto> 2, ''__END_OF_SENTENCE__'' \<mapsto> 3,
                               ''play'' \<mapsto> 4],
                        unk_index = Some 0\<rparr>)"
        "''play the song''" example_utils]
  by (simp add: TokenTensorizer_init_def example_utils_def Let_def)

theorem numberize_length_counterexample:
  "TokenTensorizer_numberize example_utils
     (TokenTensorizer_init ''text'' (\<lambda>raw_text. [Token ''play'' 0 4, Token ''the'' 5 8])
        False False False (Some 0)
        (Some \<lparr>idx = [''play'' \<mapsto> 1], unk_index = Some 0\<rparr>))
     [''text'' \<mapsto> Text ''play the'']
     = Inr ([1, 0], 2)
   \<and> (2 :: int) \<noteq> min (2 + 0 + 0) (0 + 0 + 0)
   \<and> TokenTensorizer_numberize example_utils
     (TokenTensorizer_init ''text'' (\<lambda>raw_text. []) False False False None
        (Some \<lparr>idx = [''play'' \<mapsto> 1], unk_index = Some 0\<rparr>))
     [''text'' \<mapsto> Text '''']
     = Inl UnpackError"
  by (simp add: TokenTensorizer_numberize_def TokenTensorizer_init_def row_text_def
      lookup_tokens_def py_prefix_def zip_star_def lookup_def Let_def)

section \<open>Characters of tokens\<close>

text \<open>
  C5. For a text row and limits that are not negative, \<^verbatim>\<open>CharacterTokenTensorizer.numberize\<close>
  truncates the token sequence to \<^verbatim>\<open>max_seq_len\<close> and injects no boundary token,
  whatever \<^verbatim>\<open>add_bos_token\<close>, \<^verbatim>\<open>add_eos_token\<close> and \<^verbatim>\<open>use_eos_token_for_bos\<close> are; for
  each remaining token it returns the ordinals of its characters truncated to
  \<^verbatim>\<open>max_char_length\<close>, together with the length of that truncated sequence, which is the
  smaller of the token's character count and \<^verbatim>\<open>max_char_length\<close>.
\<close>

theorem character_numberize:
  assumes "row (TokenTensorizer.text_column self) = Some (Text raw_text)"
    and "0 \<le> max_seq_len self" and "0 \<le> max_char_length self"
  shows "CharacterTokenTensorizer_numberize self row =
           Inr (map (\<lambda>t. take (nat (max_char_length self)) (map of_char (tok_value t)))
                  (take (nat (max_seq_len self)) (TokenTensorizer.tokenizer self raw_text)),
                map (\<lambda>t. min (length (tok_value t)) (nat (max_char_length self)))
                  (take (nat (max_seq_len self)) (TokenTensorizer.tokenizer self raw_text)))
       \<and> CharacterTokenTensorizer_numberize
           (self\<lparr>add_bos_token := b, add_eos_token := e, use_eos_token_for_bos := x\<rparr>) row
         = CharacterTokenTensorizer_numberize self row"
  using assms
  by (simp add: CharacterTokenTensorizer_numberize_def row_text_def py_prefix_def
      numberize_token_def Let_def)

theorem character_numberize_witness:
  "(let self = CharacterTokenTensorizer_init 3 ''text''
                 (\<lambda>raw_text. [Token ''hello'' 0 5, Token ''yo'' 6 8, Token ''x'' 9 10])
                 False False False (Some 2) None;
        row = [''text'' \<mapsto> Text ''hello yo x'']
    in row (TokenTensorizer.text_column self) = Some (Text ''hello yo x'')
       \<and> 0 \<le> max_seq_len self \<and> 0 \<le> max_char_length self
       \<and> CharacterTokenTensorizer_numberize self row
           = Inr ([[104, 101, 108], [121, 111]], [3, 2]))"
  using character_numberize
    [of "[''text'' \<mapsto> Text ''hello yo x'']"
        "CharacterTokenTensorizer_init 3 ''text''
                 (\<lambda>raw_text. [Token ''hello'' 0 5, Token ''yo'' 6 8, Token ''x'' 9 10])
                 False False False (Some 2) None"
        "''hello yo x''"]
  by (simp add: CharacterTokenTensorizer_init_def TokenTensorizer_init_def Let_def
      TokenTensorizer.defs CharacterTokenTensorizer.defs)

theorem character_numberize_counterexample:
  "CharacterTokenTensorizer_numberize
     (CharacterTokenTensorizer_init 3 ''text'' (\<lambda>raw_text. [Token ''hello'' 0 5])
        True True False None (Some \<lparr>idx = Map.empty, unk_index = Some 0\<rparr>))
     [''text'' \<mapsto> Text ''hello'']
     = Inr ([[104, 101, 108]], [3])
   \<and> TokenTensorizer_numberize example_utils
     (CharacterTokenTensorizer_init 3 ''text'' (\<lambda>raw_text. [Token ''hello'' 0 5])
        True True False None (Some \<lparr>idx = Map.empty, unk_index = Some 0\<rparr>))
     [''text'' \<mapsto> Text ''hello'']
     = Inr ([0, 0, 0], 3)
   \<and> length ''hello'' = 5"
  by (simp add: CharacterTokenTensorizer_init_def TokenTensorizer_init_def Let_def
      TokenTensorizer.defs CharacterTokenTensorizer.defs
      CharacterTokenTensorizer_numberize_def TokenTensorizer_numberize_def row_text_def
      lookup_tokens_def py_prefix_def zip_star_def lookup_def numberize_token_def)

section \<open>Numeric labels\<close>

text \<open>
  C8. For a tensorizer built with the rescale range [lo, hi] and a row whose label column
  parses to the float x, \<^verbatim>\<open>NumericLabelTensorizer.numberize\<close> returns the float it
  computes as (x - lo) / (hi - lo) when that float lies in [0, 1], bounds included, and
  fails on the assertion otherwise, without clamping; the subtractions, the division and
  the two comparisons are those of the float arithmetic. With the range [0, 10], in a float
  arithmetic with the facts of \<open>small_int_arithmetic\<close>, the input 0 gives 0.0, the input
  10 gives 1.0, and the inputs -1 and 11 fail on the assertion.
\<close>

theorem rescale_numberize:
  assumes "NumericLabelTensorizer_init ops column' (Some [lo, hi]) = Inr self"
    and "row column' = Some (Text s)"
    and "py_float s = Inr x"
  shows "(\<forall>r. truediv ops (sub ops x lo) (sub ops hi lo) = Some r \<longrightarrow>
            NumericLabelTensorizer_numberize ops py_float self row =
              (if int_le ops 0 r \<and> le_int ops r 1 then Inr r else Inl AssertionError))
       \<and> (small_int_arithmetic ops \<and> lo = from_int ops 0 \<and> hi = from_int ops 10 \<longrightarrow>
            (x = from_int ops 0 \<longrightarrow>
               NumericLabelTensorizer_numberize ops py_float self row = Inr (from_int ops 0)) \<and>
            (x = from_int ops 10 \<longrightarrow>
               NumericLabelTensorizer_numberize ops py_float self row = Inr (from_int ops 1)) \<and>
            (x = from_int ops (- 1) \<longrightarrow>
               NumericLabelTensorizer_numberize ops py_float self row = Inl AssertionError) \<and>
            (x = from_int ops 11 \<longrightarrow>
               NumericLabelTensorizer_numberize ops py_float self row = Inl AssertionError))"
proof -
  from assms(1) have self: "self = \<lparr>label_column = column', rescale_range = Some [lo, hi]\<rparr>"
    by (auto simp: NumericLabelTensorizer_init_def split: if_splits)
  have eval: "NumericLabelTensorizer_numberize ops py_float self row =
      (case truediv ops (sub ops x lo) (sub ops hi lo) of
         None \<Rightarrow> Inl ZeroDivisionError
       | Some r \<Rightarrow> if int_le ops 0 r \<and> le_int ops r 1 then Inr r else Inl AssertionError)"
    using assms(2,3)
    by (simp add: self NumericLabelTensorizer_numberize_def row_text_def Let_def)
  have general: "\<forall>r. truediv ops (sub ops x lo) (sub ops hi lo) = Some r \<longrightarrow>
            NumericLabelTensorizer_numberize ops py_float self row =
              (if int_le ops 0 r \<and> le_int ops r 1 then Inr r else Inl AssertionError)"
    by (simp add: eval)
  have boundary: "(x = from_int ops 0 \<longrightarrow>
               NumericLabelTensorizer_numberize ops py_float self row = Inr (from_int ops 0)) \<and>
            (x = from_int ops 10 \<longrightarrow>
               NumericLabelTensorizer_numberize ops py_float self row = Inr (from_int ops 1)) \<and>
            (x = from_int ops (- 1) \<longrightarrow>
               NumericLabelTensorizer_numberize ops py_float self row = Inl AssertionError) \<and>
            (x = from_int ops 11 \<longrightarrow>
               NumericLabelTensorizer_numberize ops py_float self row = Inl AssertionError)"
    if facts: "small_int_arithmetic ops" and lo: "lo = from_int ops 0"
      and hi: "hi = from_int ops 10"
  proof -
    from facts have sub0: "sub ops a (from_int ops 0) = a" for a
      by (simp add: small_int_arithmetic_def)
    from facts have defined: "truediv ops a (from_int ops 10) \<noteq> None" for a
      by (simp add: small_int_arithmetic_def)
    have eval10: "NumericLabelTensorizer_numberize ops py_float self row =
      (case truediv ops x (from_int ops 10) of
         None \<Rightarrow> Inl ZeroDivisionError
       | Some r \<Rightarrow> if int_le ops 0 r \<and> le_int ops r 1 then Inr r else Inl AssertionError)"
      by (simp add: eval lo hi sub0)
    have c0: "NumericLabelTensorizer_numberize ops py_float self row = Inr (from_int ops 0)"
      if "x = from_int ops 0"
      using facts that by (simp add: eval10 small_int_arithmetic_def)
    have c10: "NumericLabelTensorizer_numberize ops py_float self row = Inr (from_int ops 1)"
      if "x = from_int ops 10"
      using facts that by (simp add: eval10 small_int_arithmetic_def)
    have cm1: "NumericLabelTensorizer_numberize ops py_float self row = Inl AssertionError"
      if "x = from_int ops (- 1)"
    proof -
      from defined [of "from_int ops (- 1)"]
      obtain q where q: "truediv ops (from_int ops (- 1)) (from_int ops 10) = Some q"
        by auto
      with facts have "\<not> int_le ops 0 q"
        by (simp add: small_int_arithmetic_def)
      with q that show ?thesis
        by (simp add: eval10)
    qed
    have c11: "NumericLabelTensorizer_numberize ops py_float self row = Inl AssertionError"
      if "x = from_int ops 11"
    proof -
      from defined [of "from_int ops 11"]
      obtain q where q: "truediv ops (from_int ops 11) (from_int ops 10) = Some q"
        by auto
      with facts have "\<not> le_int ops q 1"
        by (simp add: small_int_arithmetic_def)
      with q that show ?thesis
        by (simp add: eval10)
    qed
    from c0 c10 cm1 c11 show ?thesis
      by blast
  qed
  from general boundary show ?thesis
    by blast
qed

theorem rescale_numberize_witness:
  "NumericLabelTensorizer_init exact_ops ''label'' (Some [0, 10])
     = Inr \<lparr>label_column = ''label'', rescale_range = Some [0, 10]\<rparr>
   \<and> [''label'' \<mapsto> Text ''10''] ''label'' = Some (Text ''10'')
   \<and> float_of_number ''10'' = Inr 10
   \<and> small_int_arithmetic exact_ops
   \<and> truediv exact_ops (sub exact_ops 10 0) (sub exact_ops 10 0) = Some 1
   \<and> NumericLabelTensorizer_numberize exact_ops float_of_number
        \<lparr>label_column = ''label'', rescale_range = Some [0, 10]\<rparr>
        [''label'' \<mapsto> Text ''10''] = Inr 1"
proof -
  have i: "NumericLabelTensorizer_init exact_ops ''label'' (Some [0, 10])
     = Inr \<lparr>label_column = ''label'', rescale_range = Some [0, 10]\<rparr>"
    by (simp add: NumericLabelTensorizer_init_def exact_ops_def)
  have r: "[''label'' \<mapsto> Text ''10''] ''label'' = Some (Text ''10'')"
    by simp
  have f: "float_of_number ''10'' = Inr 10"
    by code_simp
  have a: "small_int_arithmetic exact_ops"
    by (simp add: small_int_arithmetic_def exact_ops_def)
  have d: "truediv exact_ops (sub exact_ops 10 0) (sub exact_ops 10 0) = Some 1"
    by (simp add: exact_ops_def)
  have z: "from_int exact_ops 0 = 0" "from_int exact_ops 10 = 10" "from_int exact_ops 1 = 1"
    "int_le exact_ops 0 1" "le_int exact_ops 1 1"
    by (simp_all add: exact_ops_def)
  show ?thesis
    using rescale_numberize [of exact_ops "''label''" 0 10
        "\<lparr>label_column = ''label'', rescale_range = Some [0, 10]\<rparr>"
        "[''label'' \<mapsto> Text ''10'']" "''10''" float_of_number 10] i r f a d z
    by simp
qed

section \<open>Float lists\<close>

text \<open>An int of less than 54 bits converts to itself.\<close>

lemma bit_length_bound: "n < 2 ^ k \<Longrightarrow> bit_length n \<le> k"
proof (induction n arbitrary: k rule: bit_length.induct)
  case (1 n)
  show ?case
  proof (cases "n = 0")
    case True
    then show ?thesis by (simp add: bit_length.simps)
  next
    case False
    with "1.prems" obtain k' where k: "k = Suc k'"
      by (cases k) auto
    with "1.prems" have "n div 2 < 2 ^ k'"
      by auto
    with "1.IH" [OF False] have "bit_length (n div 2) \<le> k'"
      by simp
    with False k show ?thesis
      by (subst bit_length.simps) simp
  qed
qed

lemma float_of_small_int:
  assumes "\<bar>i\<bar> < 2 ^ 53"
  shows "float_of_int_nearest i = Inr (of_int i)"
proof -
  from assms have n: "nat \<bar>i\<bar> < 2 ^ 53"
    by (simp add: nat_less_iff)
  then have s: "bit_length (nat \<bar>i\<bar>) - 53 = 0"
    using bit_length_bound [of "nat \<bar>i\<bar>" 53] by simp
  have "(2::nat) ^ 53 \<le> 2 ^ 1024"
    by (rule power_increasing) simp_all
  with n have small: "\<not> 2 ^ 1024 \<le> nat \<bar>i\<bar>"
    by linarith
  have val: "(if i < 0 then - of_nat (nat \<bar>i\<bar>) else of_nat (nat \<bar>i\<bar>)) = (of_int i :: rat)"
    by simp
  show ?thesis
    unfolding float_of_int_nearest_def Let_def s
    using small val by simp
qed

text \<open>
  C9. With \<^verbatim>\<open>error_check\<close> on and a column that parses to a list,
  \<^verbatim>\<open>FloatListTensorizer.numberize\<close> fails on the dimension assertion, which carries the
  expected dimension, the actual length and the parsed list, whenever the length differs
  from \<^verbatim>\<open>dim\<close>; with the right length it goes on to convert the elements with
  \<^verbatim>\<open>float\<close>. For a list all of whose elements \<^verbatim>\<open>float\<close> converts it therefore fails
  exactly when the length differs from \<^verbatim>\<open>dim\<close>; a list of the right length with an
  element that \<^verbatim>\<open>float\<close> rejects fails at the conversion.
\<close>

theorem dimension_check:
  assumes "error_check self"
    and "row (column self) = Some (Text s)"
    and "json_loads (json_input (point_fixed (strip_end (strip_begin s)))) = Some (JArray res)"
  shows "(Some (int (length res)) \<noteq> dim self \<longrightarrow>
            FloatListTensorizer_numberize json_loads py_float int_float self row
              = Inl (DimensionAssertion (dim self) (length res) res))
       \<and> (Some (int (length res)) = dim self \<longrightarrow>
            FloatListTensorizer_numberize json_loads py_float int_float self row
              = floats py_float int_float res)
       \<and> ((\<forall>n \<in> set res. \<exists>x. float_of_json py_float int_float n = Inr x) \<longrightarrow>
            ((\<exists>e. FloatListTensorizer_numberize json_loads py_float int_float self row = Inl e)
               \<longleftrightarrow> Some (int (length res)) \<noteq> dim self))"
proof -
  have num: "(\<forall>n \<in> set ns. \<exists>x. float_of_json py_float int_float n = Inr x) \<Longrightarrow>
             \<exists>xs. floats py_float int_float ns = Inr xs" for ns
    by (induction ns) auto
  show ?thesis
    using assms num [of res]
    by (auto simp: FloatListTensorizer_numberize_def row_text_def Let_def)
qed

theorem dimension_check_witness:
  "error_check \<lparr>column = ''dense'', error_check = True, dim = Some 2\<rparr>
   \<and> [''dense'' \<mapsto> Text ''[0.5  0.25 2]'']
        (column \<lparr>column = ''dense'', error_check = True, dim = Some 2\<rparr>)
      = Some (Text ''[0.5  0.25 2]'')
   \<and> json_loads_lists (json_input (point_fixed (strip_end (strip_begin ''[0.5  0.25 2]''))))
      = Some (JArray [JFloat (1 / 2), JFloat (1 / 4), JInt 2])
   \<and> FloatListTensorizer_numberize json_loads_lists float_of_number float_of_int_nearest
        \<lparr>column = ''dense'', error_check = True, dim = Some 2\<rparr>
        [''dense'' \<mapsto> Text ''[0.5  0.25 2]'']
      = Inl (DimensionAssertion (Some 2) 3 [JFloat (1 / 2), JFloat (1 / 4), JInt 2])"
proof -
  have j: "json_loads_lists (json_input (point_fixed (strip_end (strip_begin ''[0.5  0.25 2]''))))
           = Some (JArray [JFloat (1 / 2), JFloat (1 / 4), JInt 2])"
    by code_simp
  show ?thesis
    using dimension_check [of "\<lparr>column = ''dense'', error_check = True, dim = Some 2\<rparr>"
        "[''dense'' \<mapsto> Text ''[0.5  0.25 2]'']" "''[0.5  0.25 2]''" json_loads_lists
        "[JFloat (1 / 2), JFloat (1 / 4), JInt 2]" float_of_number float_of_int_nearest] j
    by simp
qed

theorem dimension_check_counterexample:
  "json_loads_lists (json_input (point_fixed (strip_end (strip_begin ''[null]''))))
     = Some (JArray [JNull])
   \<and> FloatListTensorizer_numberize json_loads_lists float_of_number float_of_int_nearest
       \<lparr>column = ''dense'', error_check = True, dim = Some 1\<rparr>
       [''dense'' \<mapsto> Text ''[null]'']
     = Inl TypeError"
proof -
  have j: "json_loads_lists (json_input (point_fixed (strip_end (strip_begin ''[null]''))))
            = Some (JArray [JNull])"
    by code_simp
  show ?thesis
    by (simp add: j FloatListTensorizer_numberize_def row_text_def Let_def)
qed

text \<open>
  C4. On the text \<^verbatim>\<open>[ 1, 2.  ,3]\<close> the four rewrite rules give \<^verbatim>\<open>[1,2.0,,3]\<close>: the
  spaces in front of the comma become a comma of their own. That is no JSON, and
  \<^verbatim>\<open>numberize\<close> fails with the parse failure that carries both texts. Without the comma
  behind the spaces, \<^verbatim>\<open>[ 1, 2.  3]\<close> becomes \<^verbatim>\<open>[1,2.0,3]\<close> and parses to 1.0, 2.0, 3.0.
\<close>

theorem float_list_normalization:
  "json_input (point_fixed (strip_end (strip_begin ''[ 1, 2.  ,3]''))) = ''[1,2.0,,3]''
   \<and> json_loads_lists ''[1,2.0,,3]'' = None
   \<and> FloatListTensorizer_numberize json_loads_lists float_of_number float_of_int_nearest
       \<lparr>column = ''dense'', error_check = False, dim = None\<rparr>
       [''dense'' \<mapsto> Text ''[ 1, 2.  ,3]'']
     = Inl (UnableToParse ''[ 1, 2.  ,3]'' ''[1,2.0,,3]'')
   \<and> json_input (point_fixed (strip_end (strip_begin ''[ 1, 2.  3]''))) = ''[1,2.0,3]''
   \<and> FloatListTensorizer_numberize json_loads_lists float_of_number float_of_int_nearest
       \<lparr>column = ''dense'', error_check = False, dim = None\<rparr>
       [''dense'' \<mapsto> Text ''[ 1, 2.  3]'']
     = Inr [1, 2, 3]"
proof -
  have n1: "json_input (point_fixed (strip_end (strip_begin ''[ 1, 2.  ,3]''))) = ''[1,2.0,,3]''"
    by code_simp
  have j1: "json_loads_lists ''[1,2.0,,3]'' = None"
    by code_simp
  have n2: "json_input (point_fixed (strip_end (strip_begin ''[ 1, 2.  3]''))) = ''[1,2.0,3]''"
    by code_simp
  have j2: "json_loads_lists ''[1,2.0,3]'' = Some (JArray [JInt 1, JFloat 2, JInt 3])"
    by code_simp
  have i1: "float_of_int_nearest 1 = Inr 1"
    using float_of_small_int [of 1] by simp
  have i3: "float_of_int_nearest 3 = Inr 3"
    using float_of_small_int [of 3] by simp
  show ?thesis
    by (simp add: n1 j1 n2 j2 i1 i3 FloatListTensorizer_numberize_def row_text_def Let_def)
qed

theorem float_list_normalization_counterexample:
  "FloatListTensorizer_numberize json_loads_lists float_of_number float_of_int_nearest
       \<lparr>column = ''dense'', error_check = False, dim = None\<rparr>
       [''dense'' \<mapsto> Text ''[ 1, 2.  ,3]'']
     \<noteq> Inr [1, 2, 3]"
proof -
  have n1: "json_input (point_fixed (strip_end (strip_begin ''[ 1, 2.  ,3]''))) = ''[1,2.0,,3]''"
    by code_simp
  have j1: "json_loads_lists ''[1,2.0,,3]'' = None"
    by code_simp
  show ?thesis
    by (simp add: n1 j1 FloatListTensorizer_numberize_def row_text_def Let_def)
qed

section \<open>The streaming initializer\<close>

text \<open>
  A kick either suspends the generator or raises \<^verbatim>\<open>StopIteration\<close>; a generator that
  accepted a row is suspended again; the two nested loops over rows and initializers do to
  each initializer what feeding it the rows one after the other does; and closing closes,
  once.
\<close>

lemma start_error: "start u t = Inl e \<Longrightarrow> e = StopIteration"
  by (cases t) (auto simp: Let_def split: if_splits)

lemma close_closed: "is_closed (close u g) \<and> close u (close u g) = close u g"
  by (cases g) simp_all

lemma kick_suspending:
  "kick u (map Created ts) initializers = Inr (initializers @ suspending u ts)"
proof (induction ts arbitrary: initializers)
  case Nil
  show ?case by simp
next
  case (Cons t ts)
  show ?case
  proof (cases "start u t")
    case (Inl e)
    with start_error [OF Inl] Cons show ?thesis by simp
  next
    case (Inr g)
    with Cons show ?thesis by simp
  qed
qed

lemma send_row_all2:
  "send_row u row gs = Inr gs' \<longleftrightarrow> list_all2 (\<lambda>g g'. send u g (Some row) = Inr g') gs gs'"
proof (induction gs arbitrary: gs')
  case Nil
  show ?case by auto
next
  case (Cons g gs)
  show ?case
    by (cases gs') (auto simp: Cons [symmetric] split: sum.splits)
qed

lemma send_rows_all2:
  "send_rows u rows gs = Inr gs' \<longleftrightarrow> list_all2 (\<lambda>g g'. receive u g rows = Inr g') gs gs'"
proof (induction rows arbitrary: gs)
  case Nil
  show ?case by (auto simp: list_all2_eq [symmetric])
next
  case (Cons row rows)
  have "send_rows u (row # rows) gs = Inr gs' \<longleftrightarrow>
        (\<exists>mid. send_row u row gs = Inr mid \<and> send_rows u rows mid = Inr gs')"
    by (auto split: sum.splits)
  also have "\<dots> \<longleftrightarrow>
        (\<exists>mid. list_all2 (\<lambda>g g'. send u g (Some row) = Inr g') gs mid \<and>
               list_all2 (\<lambda>g g'. receive u g rows = Inr g') mid gs')"
    by (simp add: send_row_all2 Cons)
  also have "\<dots> \<longleftrightarrow>
        list_all2 ((\<lambda>g g'. send u g (Some row) = Inr g') OO
                   (\<lambda>g g'. receive u g rows = Inr g')) gs gs'"
    by (auto simp: list.rel_compp)
  also have "(\<lambda>g g'. send u g (Some row) = Inr g') OO (\<lambda>g g'. receive u g rows = Inr g')
             = (\<lambda>g g'. receive u g (row # rows) = Inr g')"
    by (auto simp: fun_eq_iff split: sum.splits)
  finally show ?case .
qed

lemma all2_map:
  "list_all2 (\<lambda>x y. y = f x) xs ys \<longleftrightarrow> ys = map f xs"
proof (induction xs arbitrary: ys)
  case Nil
  show ?case by auto
next
  case (Cons x xs)
  show ?case
    by (cases ys) (auto simp: Cons)
qed

lemma all2_then_close:
  "(\<exists>gs'. list_all2 (\<lambda>g g'. receive u g rows = Inr g') gs gs' \<and> cs = map (close u) gs')
     \<longleftrightarrow> list_all2 (\<lambda>g c. \<exists>g'. receive u g rows = Inr g' \<and> c = close u g') gs cs"
proof -
  have e: "(\<lambda>g c. \<exists>g'. receive u g rows = Inr g' \<and> c = close u g')
          = (\<lambda>g g'. receive u g rows = Inr g') OO (\<lambda>g' c. c = close u g')"
    by (auto simp: fun_eq_iff)
  have "list_all2 ((\<lambda>g g'. receive u g rows = Inr g') OO (\<lambda>g' c. c = close u g')) gs cs
        \<longleftrightarrow> (\<exists>gs'. list_all2 (\<lambda>g g'. receive u g rows = Inr g') gs gs' \<and>
                   list_all2 (\<lambda>g' c. c = close u g') gs' cs)"
    unfolding list.rel_compp by (rule relcompp_apply)
  then show ?thesis
    unfolding e by (simp only: all2_map)
qed

lemma case_Inr_iff:
  "(case x of Inl e \<Rightarrow> Inl e | Inr y \<Rightarrow> Inr (f y)) = Inr z \<longleftrightarrow> (\<exists>y. x = Inr y \<and> z = f y)"
  by (cases x) auto

text \<open>
  C2. \<^verbatim>\<open>initialize_tensorizers\<close> returns normally exactly when every initializer that
  suspended at its kick accepts every row of the data source, fed in source order; a
  failure in an initializer leaves the function at once. The initializers that did not
  suspend are dropped and get no row. When the function returns, each remaining
  initializer has received all rows and is closed then, by the release of the function's
  generators and not by a statement of the function, so that its handler of
  \<^verbatim>\<open>GeneratorExit\<close> freezes the vocabulary of all rows; it is closed for good, a further
  close changes nothing.
\<close>

theorem initialize_tensorizers_streams:
  "(initialize_tensorizers u tensorizers data_source = Inr finished \<longleftrightarrow>
      list_all2 (\<lambda>g c. \<exists>g'. receive u g data_source = Inr g' \<and> c = close u g')
        (suspending u (map snd tensorizers)) finished)
   \<and> (initialize_tensorizers u tensorizers data_source = Inr finished \<longrightarrow>
        (\<forall>c \<in> set finished. is_closed c \<and> close u c = c))"
proof -
  have k: "kick u (map Created (map snd tensorizers)) []
             = Inr (suspending u (map snd tensorizers))"
    using kick_suspending [of u "map snd tensorizers" "[]"] by simp
  have sr: "(if suspending u (map snd tensorizers) \<noteq> []
             then send_rows u data_source (suspending u (map snd tensorizers))
             else Inr (suspending u (map snd tensorizers))) = Inr gs' \<longleftrightarrow>
            list_all2 (\<lambda>g g'. receive u g data_source = Inr g')
              (suspending u (map snd tensorizers)) gs'" for gs'
    by (cases "suspending u (map snd tensorizers) = []") (auto simp: send_rows_all2)
  have "initialize_tensorizers u tensorizers data_source = Inr finished \<longleftrightarrow>
      (\<exists>gs'. list_all2 (\<lambda>g g'. receive u g data_source = Inr g')
               (suspending u (map snd tensorizers)) gs' \<and> finished = map (close u) gs')"
    unfolding initialize_tensorizers_def k
    by (simp add: case_Inr_iff sr)
  then have eq: "initialize_tensorizers u tensorizers data_source = Inr finished \<longleftrightarrow>
      list_all2 (\<lambda>g c. \<exists>g'. receive u g data_source = Inr g' \<and> c = close u g')
        (suspending u (map snd tensorizers)) finished"
    by (simp only: all2_then_close)
  have cl: "\<forall>c \<in> set finished. is_closed c \<and> close u c = c"
    if "list_all2 (\<lambda>g c. \<exists>g'. receive u g data_source = Inr g' \<and> c = close u g')
        (suspending u (map snd tensorizers)) finished"
  proof
    fix c assume "c \<in> set finished"
    then obtain i where i: "i < length finished" "c = finished ! i"
      by (auto simp: in_set_conv_nth)
    with that obtain g' where "c = close u g'"
      by (auto simp: list_all2_conv_all_nth)
    with close_closed [of u g'] show "is_closed c \<and> close u c = c"
      by simp
  qed
  show ?thesis
    using eq cl by blast
qed

theorem initialize_tensorizers_streams_witness:
  "initialize_tensorizers example_utils
     [(''tokens'', TokenT (TokenTensorizer_init ''text''
          (\<lambda>raw_text. [Token raw_text 0 (int (length raw_text))])
          False False False None None)),
      (''characters'', CharacterTokenT (CharacterTokenTensorizer_init 20 ''text''
          (\<lambda>raw_text. [Token raw_text 0 (int (length raw_text))])
          False False False None None)),
      (''labels'', LabelT (LabelTensorizer_init ''label'' False))]
     [[''text'' \<mapsto> Text ''hi'', ''label'' \<mapsto> Text ''a''],
      [''text'' \<mapsto> Text ''yo'', ''label'' \<mapsto> Text ''b'']]
   = Inr [Closed (TokenT ((TokenTensorizer_init ''text''
            (\<lambda>raw_text. [Token raw_text 0 (int (length raw_text))])
            False False False None None)
            \<lparr>TokenTensorizer.vocab :=
               Some (example_make_vocab
                       \<lparr>use_pad = True, use_unk = True, symbols = [''hi'', ''yo'']\<rparr>),
             vocab_builder :=
               Some \<lparr>use_pad = True, use_unk = True, symbols = [''hi'', ''yo'']\<rparr>\<rparr>)),
          Closed (LabelT ((LabelTensorizer_init ''label'' False)
            \<lparr>LabelTensorizer.labels :=
               Some (example_make_vocab
                       \<lparr>use_pad = False, use_unk = False, symbols = [''a'', ''b'']\<rparr>)\<rparr>))
           :: rat generator]
   \<and> is_closed (Closed (LabelT ((LabelTensorizer_init ''label'' False)
            \<lparr>LabelTensorizer.labels :=
               Some (example_make_vocab
                       \<lparr>use_pad = False, use_unk = False, symbols = [''a'', ''b'']\<rparr>)\<rparr>))
           :: rat generator)"
  using initialize_tensorizers_streams
    [of example_utils
     "[(''tokens'', TokenT (TokenTensorizer_init ''text''
          (\<lambda>raw_text. [Token raw_text 0 (int (length raw_text))])
          False False False None None)),
      (''characters'', CharacterTokenT (CharacterTokenTensorizer_init 20 ''text''
          (\<lambda>raw_text. [Token raw_text 0 (int (length raw_text))])
          False False False None None)),
      (''labels'', LabelT (LabelTensorizer_init ''label'' False))]"
     "[[''text'' \<mapsto> Text ''hi'', ''label'' \<mapsto> Text ''a''],
      [''text'' \<mapsto> Text ''yo'', ''label'' \<mapsto> Text ''b'']]"
     "[Closed (TokenT ((TokenTensorizer_init ''text''
            (\<lambda>raw_text. [Token raw_text 0 (int (length raw_text))])
            False False False None None)
            \<lparr>TokenTensorizer.vocab :=
               Some (example_make_vocab
                       \<lparr>use_pad = True, use_unk = True, symbols = [''hi'', ''yo'']\<rparr>),
             vocab_builder :=
               Some \<lparr>use_pad = True, use_unk = True, symbols = [''hi'', ''yo'']\<rparr>\<rparr>)),
          Closed (LabelT ((LabelTensorizer_init ''label'' False)
            \<lparr>LabelTensorizer.labels :=
               Some (example_make_vocab
                       \<lparr>use_pad = False, use_unk = False, symbols = [''a'', ''b'']\<rparr>)\<rparr>))
           :: rat generator]"]
  by (simp add: TokenTensorizer_init_def LabelTensorizer_init_def example_utils_def
      row_text_def add_all_def add_def Let_def)

theorem initialize_tensorizers_streams_counterexample:
  "initialize_tensorizers example_utils
     [(''labels'', LabelT (LabelTensorizer_init ''label'' False) :: rat tensorizer)]
     [[''text'' \<mapsto> Text ''hi''], [''label'' \<mapsto> Text ''a'']]
   = Inl (KeyError ''label'')"
  by (simp add: initialize_tensorizers_def LabelTensorizer_init_def example_utils_def
      row_text_def Let_def)

section \<open>Categorical labels\<close>

text \<open>
  C3. The specification has \<^verbatim>\<open>LabelTensorizer.numberize\<close> split the label column on the
  delimiter and look each segment up. \<^verbatim>\<open>initialize\<close> does split on the comma: streamed
  the one row with the label \<^verbatim>\<open>a,b\<close>, it freezes a vocabulary of the symbols \<^verbatim>\<open>a\<close> and
  \<^verbatim>\<open>b\<close>. \<^verbatim>\<open>numberize\<close> hands the column's string to the vocabulary as it is: on the same
  row, with a vocabulary of exactly these two labels, it fails on the unknown symbol
  \<^verbatim>\<open>a,b\<close>, where the lookup of the split segments gives the two indices.
\<close>

theorem label_numberize_does_not_split:
  "initialize_tensorizers example_utils
     [(''labels'', LabelT (LabelTensorizer_init ''label'' False) :: rat tensorizer)]
     [[''label'' \<mapsto> Text ''a,b'']]
   = Inr [Closed (LabelT ((LabelTensorizer_init ''label'' False)
            \<lparr>LabelTensorizer.labels :=
               Some (example_make_vocab
                       \<lparr>use_pad = False, use_unk = False, symbols = [''a'', ''b'']\<rparr>)\<rparr>))]
   \<and> LabelTensorizer_numberize
       ((LabelTensorizer_init ''label'' False)
          \<lparr>LabelTensorizer.labels :=
             Some (example_make_vocab
                     \<lparr>use_pad = False, use_unk = False, symbols = [''a'', ''b'']\<rparr>)\<rparr>)
       [''label'' \<mapsto> Text ''a,b'']
     = Inl (UnknownSymbol ''a,b'')
   \<and> LabelTensorizer_numberize
       ((LabelTensorizer_init ''label'' False)
          \<lparr>LabelTensorizer.labels :=
             Some \<lparr>idx = [''a'' \<mapsto> 0, ''b'' \<mapsto> 1], unk_index = None\<rparr>\<rparr>)
       [''label'' \<mapsto> Text ''a,b'']
     = Inl (UnknownSymbol ''a,b'')
   \<and> lookup_all \<lparr>idx = [''a'' \<mapsto> 0, ''b'' \<mapsto> 1], unk_index = None\<rparr>
       (split CHR '','' ''a,b'')
     = Inr [0, 1]"
  by (simp add: initialize_tensorizers_def LabelTensorizer_init_def example_utils_def
      example_make_vocab_def row_text_def add_all_def add_def Let_def
      LabelTensorizer_numberize_def lookup_all_str_def lookup_def)

end
